theory Spec2Isabelle
  imports Complex_Main
begin

section \<open>JavaScript values, objects and callbacks\<close>

text \<open>
  The components are JavaScript: an options object is a bag of properties, any of which
  may be missing, and a callback is a property holding a function. Values are modelled
  by \<open>jsval\<close>; number literals are rationals (\<open>0.01\<close> is \<open>1/100\<close>), with
  \<open>JNaN\<close> apart. Objects and arrays live in a store and are named by reference
  (\<open>JRef\<close>), because \<open>open\<close> hands one and the same object to the overlay
  controller twice and the caller keeps its own. Functions are named by an identifier
  (\<open>JFun\<close>) that a function environment resolves.
\<close>

datatype jsval =
    JUndefined
  | JNull
  | JBool bool
  | JNum rat
  | JNaN
  | JStr string
  | JRef nat
  | JFun nat

text \<open>JavaScript's \<open>ToBoolean\<close>: what \<open>if (v)\<close> and \<open>v && ...\<close> test.\<close>

fun truthy :: "jsval \<Rightarrow> bool" where
  "truthy JUndefined = False"
| "truthy JNull = False"
| "truthy (JBool b) = b"
| "truthy (JNum n) = (n \<noteq> 0)"
| "truthy JNaN = False"
| "truthy (JStr s) = (s \<noteq> [])"
| "truthy (JRef r) = True"
| "truthy (JFun f) = True"

datatype cell =
    HObj "string \<rightharpoonup> jsval"
  | HArr "jsval list"

type_synonym heap = "cell list"

text \<open>
  A reference is an index into the store; allocation appends, so a new reference is
  never one already in use.
\<close>

definition alloc :: "cell \<Rightarrow> heap \<Rightarrow> nat \<times> heap" where
  "alloc c h = (length h, h @ [c])"

definition obj_at :: "heap \<Rightarrow> nat \<Rightarrow> (string \<rightharpoonup> jsval) option" where
  "obj_at h r =
     (if r < length h then (case h ! r of HObj m \<Rightarrow> Some m | HArr xs \<Rightarrow> None) else None)"

definition arr_at :: "heap \<Rightarrow> nat \<Rightarrow> jsval list option" where
  "arr_at h r =
     (if r < length h then (case h ! r of HArr xs \<Rightarrow> Some xs | HObj m \<Rightarrow> None) else None)"

text \<open>
  \<open>field h r k\<close> is the property read \<open>o.k\<close> on the object at \<open>r\<close>: a missing property
  reads as \<open>undefined\<close>.
\<close>

definition field :: "heap \<Rightarrow> nat \<Rightarrow> string \<Rightarrow> jsval" where
  "field h r k =
     (case obj_at h r of
        None \<Rightarrow> JUndefined
      | Some m \<Rightarrow> (case m k of None \<Rightarrow> JUndefined | Some v \<Rightarrow> v))"

text \<open>The same read on a value that need not be a reference (a button of the array).\<close>

definition member_of :: "heap \<Rightarrow> jsval \<Rightarrow> string \<Rightarrow> jsval" where
  "member_of h v k = (case v of JRef r \<Rightarrow> field h r k | _ \<Rightarrow> JUndefined)"

text \<open>The elements of the array a value refers to; nothing to iterate otherwise.\<close>

definition elements :: "heap \<Rightarrow> jsval \<Rightarrow> jsval list" where
  "elements h v =
     (case v of
        JRef r \<Rightarrow> (case arr_at h r of Some xs \<Rightarrow> xs | None \<Rightarrow> [])
      | _ \<Rightarrow> [])"

text \<open>
  A call of a caller's function either returns a value or throws one. The callbacks'
  own effects are the caller's business; what the component does with them is recorded
  in its trace of events.
\<close>

datatype outcome = Returns jsval | Throws jsval

type_synonym fenv = "nat \<Rightarrow> jsval list \<Rightarrow> outcome"

datatype js_error = TypeError | ReferenceError | Uncaught jsval

section \<open>The action sheet's presentation component (\<open>ActionSheetCmp\<close>)\<close>

datatype visibility = Entering | Visible | Leaving | Removed

datatype event = Invoked nat "jsval list" | CloseCalled

text \<open>
  The component instance: \<open>d\<close> is \<open>this.d\<close>, the reference to the options object it was
  constructed with. \<open>vis\<close> is the overlay's place in its life cycle and \<open>trace\<close> the
  calls the component has made, in order.
\<close>

record cmp =
  d :: nat
  vis :: visibility
  trace :: "event list"

text \<open>
  The constructor stores \<open>params.data\<close>. With a truthy \<open>cssClass\<close> it goes on to
  \<open>renderer.setElementClass(elementRef, ...)\<close>, where \<open>elementRef\<close> is bound nowhere in
  the file: evaluating it raises.
\<close>

definition ActionSheetCmp :: "heap \<Rightarrow> nat \<Rightarrow> js_error + cmp" where
  "ActionSheetCmp h dat =
     (if truthy (field h dat ''cssClass'') then Inl ReferenceError
      else Inr \<lparr>d = dat, vis = Entering, trace = []\<rparr>)"

text \<open>
  Modelled from the spec: \<open>close()\<close> is given to the instance by the overlay controller,
  which is not among the sources. The spec's state machine says what it does: the
  overlay transitions to \<open>leaving\<close>. The trace records that it was called.
\<close>

definition close :: "cmp \<Rightarrow> cmp" where
  "close c = c\<lparr>vis := Leaving, trace := trace c @ [CloseCalled]\<rparr>"

text \<open>
  The call \<open>f(args)\<close> of a value: a value that is not a function raises
  \<open>TypeError\<close> and nothing is called; a function is called once, and what it throws
  goes on to the caller.
\<close>

definition invoke :: "fenv \<Rightarrow> jsval \<Rightarrow> jsval list \<Rightarrow> cmp \<Rightarrow> (js_error + jsval) \<times> cmp" where
  "invoke fe v args c =
     (case v of
        JFun f \<Rightarrow>
          (case fe f args of
             Returns x \<Rightarrow> (Inr x, c\<lparr>trace := trace c @ [Invoked f args]\<rparr>)
           | Throws e \<Rightarrow> (Inl (Uncaught e), c\<lparr>trace := trace c @ [Invoked f args]\<rparr>))
      | _ \<Rightarrow> (Inl TypeError, c))"

datatype completion = Normal | Abrupt js_error

text \<open>\<open>this.d.cancel && this.d.cancel(); return this.close();\<close>\<close>

definition cancel :: "fenv \<Rightarrow> heap \<Rightarrow> cmp \<Rightarrow> completion \<times> cmp" where
  "cancel fe h c =
     (if truthy (field h (d c) ''cancel'') then
        (case invoke fe (field h (d c) ''cancel'') [] c of
           (Inl e, c') \<Rightarrow> (Abrupt e, c')
         | (Inr v, c') \<Rightarrow> (Normal, close c'))
      else (Normal, close c))"

text \<open>\<open>if (this.d.destructiveButtonClicked()) { return this.close(); }\<close>\<close>

definition destructive :: "fenv \<Rightarrow> heap \<Rightarrow> cmp \<Rightarrow> completion \<times> cmp" where
  "destructive fe h c =
     (case invoke fe (field h (d c) ''destructiveButtonClicked'') [] c of
        (Inl e, c') \<Rightarrow> (Abrupt e, c')
      | (Inr v, c') \<Rightarrow> (if truthy v then (Normal, close c') else (Normal, c')))"

text \<open>\<open>if (this.d.buttonClicked(index)) { return this.close(); }\<close>\<close>

definition buttonClicked :: "fenv \<Rightarrow> heap \<Rightarrow> jsval \<Rightarrow> cmp \<Rightarrow> completion \<times> cmp" where
  "buttonClicked fe h index c =
     (case invoke fe (field h (d c) ''buttonClicked'') [index] c of
        (Inl e, c') \<Rightarrow> (Abrupt e, c')
      | (Inr v, c') \<Rightarrow> (if truthy v then (Normal, close c') else (Normal, c')))"

subsection \<open>The template\<close>

text \<open>
  The template, flattened in document order. Each node keeps its tag or class, the
  handler its \<open>(click)\<close> binding calls, and the icon and label it shows. \<open>*ng-if\<close>
  keeps a node when its condition is truthy; \<open>*ng-for\<close> makes one option button per
  element of \<open>d.buttons\<close>, binding \<open>i\<close> to the element's index.
\<close>

datatype action = Cancel | Destructive | ButtonClicked nat

datatype node = Node (tag: string) (click: "action option") (icon: "jsval option") (label: "jsval option")

definition shown :: "jsval \<Rightarrow> jsval option" where
  "shown v = (if truthy v then Some v else None)"

definition option_button :: "heap \<Rightarrow> nat \<times> jsval \<Rightarrow> node" where
  "option_button h ib =
     Node ''action-sheet-option'' (Some (ButtonClicked (fst ib)))
       (shown (member_of h (snd ib) ''icon'')) (Some (member_of h (snd ib) ''text''))"

definition template :: "heap \<Rightarrow> nat \<Rightarrow> node list" where
  "template h r =
     [Node ''backdrop'' (Some Cancel) None None] @
     (if truthy (field h r ''titleText'')
      then [Node ''action-sheet-title'' None None (Some (field h r ''titleText''))] else []) @
     map (option_button h) (enumerate 0 (elements h (field h r ''buttons''))) @
     (if truthy (field h r ''destructiveText'')
      then [Node ''action-sheet-destructive'' (Some Destructive)
              (shown (field h r ''destructiveIcon'')) (Some (field h r ''destructiveText''))]
      else []) @
     (if truthy (field h r ''cancelText'')
      then [Node ''action-sheet-cancel'' (Some Cancel)
              (shown (field h r ''cancelIcon'')) (Some (field h r ''cancelText''))]
      else [])"

text \<open>The option buttons of the rendered sheet, in order.\<close>

definition option_buttons :: "heap \<Rightarrow> nat \<Rightarrow> node list" where
  "option_buttons h r = filter (\<lambda>n. tag n = ''action-sheet-option'') (template h r)"

text \<open>Activating a node runs the handler its click binding names, if it has one.\<close>

definition activate :: "fenv \<Rightarrow> heap \<Rightarrow> node \<Rightarrow> cmp \<Rightarrow> completion \<times> cmp" where
  "activate fe h n c =
     (case click n of
        None \<Rightarrow> (Normal, c)
      | Some Cancel \<Rightarrow> cancel fe h c
      | Some Destructive \<Rightarrow> destructive fe h c
      | Some (ButtonClicked i) \<Rightarrow> buttonClicked fe h (JNum (of_nat i)) c)"

subsection \<open>The usage example of the documentation\<close>

text \<open>
  The options of the \<open>openMenu()\<close> example in the service's doc comment: two buttons, a
  destructive, a title and a cancel text, and the three callbacks. \<open>cancel\<close> (function
  0) and \<open>destructiveButtonClicked\<close> (function 1) only log and return nothing;
  \<open>buttonClicked\<close> (function 2) returns \<open>false\<close> for index 1 and \<open>true\<close> otherwise.
\<close>

definition usage_heap :: heap where
  "usage_heap =
     [HObj [''buttons'' \<mapsto> JRef 1,
            ''destructiveText'' \<mapsto> JStr ''Delete'',
            ''titleText'' \<mapsto> JStr ''Modify your album'',
            ''cancelText'' \<mapsto> JStr ''Cancel'',
            ''cancel'' \<mapsto> JFun 0,
            ''destructiveButtonClicked'' \<mapsto> JFun 1,
            ''buttonClicked'' \<mapsto> JFun 2],
      HArr [JRef 2, JRef 3],
      HObj [''text'' \<mapsto> JStr ''Share This''],
      HObj [''text'' \<mapsto> JStr ''Move'']]"

definition usage_fenv :: fenv where
  "usage_fenv f args =
     (if f = 2 then (if args = [JNum 1] then Returns (JBool False) else Returns (JBool True))
      else Returns JUndefined)"

text \<open>
  The same sheet when the caller leaves the button callbacks out: only the buttons and
  the texts.
\<close>

definition bare_heap :: heap where
  "bare_heap =
     [HObj [''buttons'' \<mapsto> JRef 1,
            ''destructiveText'' \<mapsto> JStr ''Delete'',
            ''cancelText'' \<mapsto> JStr ''Cancel''],
      HArr [JRef 2],
      HObj [''text'' \<mapsto> JStr ''Share This'']]"

text \<open>
  Two callers whose \<open>cancel\<close> does not come back: one passes a function (function 0)
  that throws, the other a string where a function belongs. Both sheets have a cancel
  button.
\<close>

definition throwing_heap :: heap where
  "throwing_heap = [HObj [''cancelText'' \<mapsto> JStr ''Cancel'', ''cancel'' \<mapsto> JFun 0]]"

definition throwing_fenv :: fenv where
  "throwing_fenv f args = Throws (JStr ''cancel failed'')"

definition misused_heap :: heap where
  "misused_heap = [HObj [''cancelText'' \<mapsto> JStr ''Cancel'', ''cancel'' \<mapsto> JStr ''yes'']]"

section \<open>The action sheet service (\<open>ActionSheet\<close>)\<close>

text \<open>
  What the service works on: the store of objects, the process-wide configuration, and
  the overlays the controller has open, the most recent first.
\<close>

record overlay =
  handle :: jsval
  pageType :: jsval
  inst :: cmp
  props :: nat

record world =
  objects :: heap
  config :: "string \<rightharpoonup> jsval"
  overlays :: "overlay list"

definition OVERLAY_TYPE :: jsval where
  "OVERLAY_TYPE = JStr ''action-sheet''"

text \<open>An object literal \<open>{...}\<close>: a new object in the store.\<close>

definition new_object :: "(string \<rightharpoonup> jsval) \<Rightarrow> world \<Rightarrow> nat \<times> world" where
  "new_object m w = (case alloc (HObj m) (objects w) of (r, h) \<Rightarrow> (r, w\<lparr>objects := h\<rparr>))"

text \<open>
  Modelled from the spec: the \<open>Config\<close> class is not among the sources. The spec gives
  \<open>get(key) -> value\<close> over a key-to-default-value mapping, read-only from the action
  sheet's side; a key without an entry reads as \<open>undefined\<close>.
\<close>

definition config_get :: "string \<Rightarrow> world \<Rightarrow> jsval \<times> world" where
  "config_get k w = ((case config w k of None \<Rightarrow> JUndefined | Some v \<Rightarrow> v), w)"

text \<open>
  Modelled from the spec: \<open>extend\<close> of \<open>util/util\<close> is not among the sources. The spec
  says that the fields missing from the caller's options are filled from the defaults
  and that the caller's own fields win: \<open>extend(dst, src)\<close> writes every property of
  \<open>src\<close> onto \<open>dst\<close>, leaves \<open>src\<close> as it is and returns \<open>dst\<close>.
\<close>

definition util_extend :: "nat \<Rightarrow> nat \<Rightarrow> world \<Rightarrow> nat \<times> world" where
  "util_extend dst src w =
     (case (obj_at (objects w) dst, obj_at (objects w) src) of
        (Some a, Some b) \<Rightarrow> (dst, w\<lparr>objects := (objects w)[dst := HObj (a ++ b)]\<rparr>)
      | _ \<Rightarrow> (dst, w))"

text \<open>
  \<open>open(opts={})\<close>. The argument is \<open>None\<close> when the caller passes nothing (the default
  \<open>{}\<close> is then a new object) and the reference to the caller's object otherwise. The
  overlay controller's \<open>open\<close> is the parameter \<open>ctrl_open\<close>: it receives the component
  and the merged object twice, as \<open>this.ctrl.open(ActionSheetCmp, opts, opts)\<close> does.
\<close>

definition ActionSheet_open ::
  "((heap \<Rightarrow> nat \<Rightarrow> js_error + cmp) \<Rightarrow> nat \<Rightarrow> nat \<Rightarrow> world \<Rightarrow> 'r) \<Rightarrow> nat option \<Rightarrow> world \<Rightarrow> 'r" where
  "ActionSheet_open ctrl_open opts w0 =
     (case (case opts of None \<Rightarrow> new_object Map.empty w0 | Some r \<Rightarrow> (r, w0)) of (src, w1) \<Rightarrow>
      case config_get ''actionSheetEnter'' w1 of (enter, w2) \<Rightarrow>
      case config_get ''actionSheetLeave'' w2 of (leave, w3) \<Rightarrow>
      case config_get ''actionSheetCancelIcon'' w3 of (cicon, w4) \<Rightarrow>
      case config_get ''actionSheetDestructiveIcon'' w4 of (dicon, w5) \<Rightarrow>
      case new_object
             [''pageType'' \<mapsto> OVERLAY_TYPE,
              ''enterAnimation'' \<mapsto> enter,
              ''leaveAnimation'' \<mapsto> leave,
              ''cancelIcon'' \<mapsto> cicon,
              ''destructiveIcon'' \<mapsto> dicon] w5 of (dst, w6) \<Rightarrow>
      case util_extend dst src w6 of (merged, w7) \<Rightarrow>
        ctrl_open ActionSheetCmp merged merged w7)"

text \<open>
  \<open>get(handle)\<close>. The controller's two lookups are the parameters \<open>getByHandle\<close> and
  \<open>getByType\<close>; a call without an argument has \<open>handle = undefined\<close>.
\<close>

definition ActionSheet_get ::
  "(jsval \<Rightarrow> 'w \<Rightarrow> 'r) \<Rightarrow> (jsval \<Rightarrow> 'w \<Rightarrow> 'r) \<Rightarrow> jsval \<Rightarrow> 'w \<Rightarrow> 'r" where
  "ActionSheet_get getByHandle getByType hnd w =
     (if truthy hnd then getByHandle hnd w else getByType OVERLAY_TYPE w)"

text \<open>
  The arguments \<open>open\<close> hands to the controller, and the world at that moment: the
  controller that only reports its call.
\<close>

definition handed_over :: "(heap \<Rightarrow> nat \<Rightarrow> js_error + cmp) \<Rightarrow> nat \<Rightarrow> nat \<Rightarrow> world \<Rightarrow> nat \<times> nat \<times> world" where
  "handed_over mk dat pr w = (dat, pr, w)"

text \<open>
  The caller's options as \<open>open\<close> sees them: no argument stands for the empty object.
\<close>

definition caller_options :: "world \<Rightarrow> nat option \<Rightarrow> (string \<rightharpoonup> jsval) option" where
  "caller_options w opts = (case opts of None \<Rightarrow> Some Map.empty | Some r \<Rightarrow> obj_at (objects w) r)"

text \<open>
  The object literal that \<open>open\<close> extends, with the four values as the configuration
  \<open>w\<close> gives them.
\<close>

definition default_options :: "world \<Rightarrow> string \<rightharpoonup> jsval" where
  "default_options w =
     [''pageType'' \<mapsto> OVERLAY_TYPE,
      ''enterAnimation'' \<mapsto> fst (config_get ''actionSheetEnter'' w),
      ''leaveAnimation'' \<mapsto> fst (config_get ''actionSheetLeave'' w),
      ''cancelIcon'' \<mapsto> fst (config_get ''actionSheetCancelIcon'' w),
      ''destructiveIcon'' \<mapsto> fst (config_get ''actionSheetDestructiveIcon'' w)]"

subsection \<open>The overlay controller\<close>

text \<open>
  Modelled from the spec: the \<open>OverlayController\<close> is not among the sources. By the spec
  it opens a component as an overlay, tracks the open overlays by type and by handle,
  and resolves once the overlay has fully entered; \<open>getByHandle\<close> and \<open>getByType\<close>
  return the instance or \<open>undefined\<close> (\<open>None\<close>) and change nothing, \<open>getByType\<close> giving
  the most recently active instance of the type. The handle is opaque and the
  controller's to choose, so it is the argument \<open>hnd\<close> here. The type of an overlay is
  the \<open>pageType\<close> of its render props. A constructor that raises makes \<open>open\<close> fail, and
  nothing is registered.
\<close>

definition ctrl_open ::
  "jsval \<Rightarrow> (heap \<Rightarrow> nat \<Rightarrow> js_error + cmp) \<Rightarrow> nat \<Rightarrow> nat \<Rightarrow> world \<Rightarrow> js_error + overlay \<times> world" where
  "ctrl_open hnd mk dat pr w =
     (case mk (objects w) dat of
        Inl e \<Rightarrow> Inl e
      | Inr c \<Rightarrow>
          Inr (\<lparr>handle = hnd, pageType = field (objects w) pr ''pageType'',
                inst = c\<lparr>vis := Visible\<rparr>, props = pr\<rparr>,
               w\<lparr>overlays :=
                   \<lparr>handle = hnd, pageType = field (objects w) pr ''pageType'',
                    inst = c\<lparr>vis := Visible\<rparr>, props = pr\<rparr> # overlays w\<rparr>))"

definition getByHandle :: "jsval \<Rightarrow> world \<Rightarrow> overlay option \<times> world" where
  "getByHandle hnd w = (find (\<lambda>ov. handle ov = hnd) (overlays w), w)"

definition getByType :: "jsval \<Rightarrow> world \<Rightarrow> overlay option \<times> world" where
  "getByType t w = (find (\<lambda>ov. pageType ov = t) (overlays w), w)"

section \<open>The registered animations\<close>

text \<open>
  Modelled from the spec: the \<open>Animation\<close> base class is not among the sources. By the
  spec a registered behaviour is a declarative description: the regions that animate,
  the properties that move and between what bounds, a duration in milliseconds and an
  easing curve. The element an animation is built on is named by the view it is
  queried in and its selector; the \<open>opts\<close> handed on to the base class play no part in
  the description.
\<close>

datatype view = EnteringView | LeavingView

datatype animation =
  Animation (target: "(view \<times> string) option") (effects: "(string \<times> jsval \<times> jsval) list")
    (curve: "string option") (millis: "nat option") (children: "animation list")

definition new_Animation :: "(view \<times> string) option \<Rightarrow> animation" where
  "new_Animation ele = Animation ele [] None None []"

definition fromTo :: "string \<Rightarrow> jsval \<Rightarrow> jsval \<Rightarrow> animation \<Rightarrow> animation" where
  "fromTo p a b an =
     Animation (target an) (effects an @ [(p, a, b)]) (curve an) (millis an) (children an)"

definition easing :: "string \<Rightarrow> animation \<Rightarrow> animation" where
  "easing e an = Animation (target an) (effects an) (Some e) (millis an) (children an)"

definition duration :: "nat \<Rightarrow> animation \<Rightarrow> animation" where
  "duration ms an = Animation (target an) (effects an) (curve an) (Some ms) (children an)"

definition add :: "animation list \<Rightarrow> animation \<Rightarrow> animation" where
  "add cs an = Animation (target an) (effects an) (curve an) (millis an) (children an @ cs)"

definition ActionSheetSlideIn :: animation where
  "ActionSheetSlideIn =
     add [fromTo ''opacity'' (JNum (1 / 100)) (JNum (4 / 10))
            (new_Animation (Some (EnteringView, ''backdrop''))),
          fromTo ''translateY'' (JStr ''100%'') (JStr ''0%'')
            (new_Animation (Some (EnteringView, ''action-sheet-wrapper'')))]
       (duration 400 (easing ''cubic-bezier(.36,.66,.04,1)'' (new_Animation None)))"

definition ActionSheetSlideOut :: animation where
  "ActionSheetSlideOut =
     add [fromTo ''opacity'' (JNum (4 / 10)) (JNum 0)
            (new_Animation (Some (LeavingView, ''backdrop''))),
          fromTo ''translateY'' (JStr ''0%'') (JStr ''100%'')
            (new_Animation (Some (LeavingView, ''action-sheet-wrapper'')))]
       (duration 300 (easing ''cubic-bezier(.36,.66,.04,1)'' (new_Animation None)))"

definition ActionSheetMdSlideIn :: animation where
  "ActionSheetMdSlideIn =
     add [fromTo ''opacity'' (JNum (1 / 100)) (JNum (26 / 100))
            (new_Animation (Some (EnteringView, ''backdrop''))),
          fromTo ''translateY'' (JStr ''100%'') (JStr ''0%'')
            (new_Animation (Some (EnteringView, ''action-sheet-wrapper'')))]
       (duration 450 (easing ''cubic-bezier(.36,.66,.04,1)'' (new_Animation None)))"

definition ActionSheetMdSlideOut :: animation where
  "ActionSheetMdSlideOut =
     add [fromTo ''opacity'' (JNum (26 / 100)) (JNum 0)
            (new_Animation (Some (LeavingView, ''backdrop''))),
          fromTo ''translateY'' (JStr ''0%'') (JStr ''100%'')
            (new_Animation (Some (LeavingView, ''action-sheet-wrapper'')))]
       (duration 450 (easing ''cubic-bezier(.36,.66,.04,1)'' (new_Animation None)))"

text \<open>\<open>Animation.register(name, cls)\<close>, and the four registrations in the file's order.\<close>

definition register :: "string \<Rightarrow> animation \<Rightarrow> (string \<rightharpoonup> animation) \<Rightarrow> (string \<rightharpoonup> animation)" where
  "register name an reg = reg(name \<mapsto> an)"

definition registered :: "string \<rightharpoonup> animation" where
  "registered =
     register ''action-sheet-md-slide-out'' ActionSheetMdSlideOut
       (register ''action-sheet-md-slide-in'' ActionSheetMdSlideIn
          (register ''action-sheet-slide-out'' ActionSheetSlideOut
             (register ''action-sheet-slide-in'' ActionSheetSlideIn Map.empty)))"

text \<open>
  Reading the table: the bounds between which a property of a region moves under a
  registered name, and the name's duration and easing.
\<close>

definition bounds :: "string \<Rightarrow> string \<Rightarrow> string \<Rightarrow> (jsval \<times> jsval) option" where
  "bounds name sel p =
     (case registered name of
        None \<Rightarrow> None
      | Some an \<Rightarrow>
          (case find (\<lambda>c. map_option snd (target c) = Some sel) (children an) of
             None \<Rightarrow> None
           | Some c \<Rightarrow> map_of (effects c) p))"

definition timing :: "string \<Rightarrow> (nat option \<times> string option) option" where
  "timing name = map_option (\<lambda>an. (millis an, curve an)) (registered name)"

section \<open>The segment button (\<open>SegmentButton\<close>)\<close>

text \<open>
  The button's mutable \<open>checked\<close> property, and \<open>ionSelect\<close>, the number of times the
  event of that name has been emitted.
\<close>

record segment_button =
  checked :: bool
  ionSelect :: nat

text \<open>\<open>if (checked && !prev) { this.ionSelect.emit(); }\<close>\<close>

definition checkedChanged :: "bool \<Rightarrow> bool \<Rightarrow> segment_button \<Rightarrow> segment_button" where
  "checkedChanged chk prev s = (if chk \<and> \<not> prev then s\<lparr>ionSelect := ionSelect s + 1\<rparr> else s)"

text \<open>
  An assignment to \<open>checked\<close>. The property is watched: when the assignment changes the
  value, the framework calls \<open>checkedChanged\<close> with the new and the previous value;
  when it does not, nothing is called.
\<close>

definition set_checked :: "bool \<Rightarrow> segment_button \<Rightarrow> segment_button" where
  "set_checked v s =
     (if v = checked s then s else checkedChanged v (checked s) (s\<lparr>checked := v\<rparr>))"

text \<open>\<open>this.checked = true;\<close>\<close>

definition onClick :: "segment_button \<Rightarrow> segment_button" where
  "onClick s = set_checked True s"

section \<open>Properties of the presentation component\<close>

lemma option_buttons_eq:
  "option_buttons h r = map (option_button h) (enumerate 0 (elements h (field h r ''buttons'')))"
  by (simp add: option_buttons_def template_def option_button_def filter_map o_def)

lemma invoke_fun:
  "invoke fe (JFun f) args c =
     ((case fe f args of Returns x \<Rightarrow> Inr x | Throws e \<Rightarrow> Inl (Uncaught e)),
      c\<lparr>trace := trace c @ [Invoked f args]\<rparr>)"
  by (simp add: invoke_def split: outcome.splits)

lemma invoke_undefined: "invoke fe JUndefined args c = (Inl TypeError, c)"
  by (simp add: invoke_def)

text \<open>
  Claim C1. Take options whose \<open>buttons\<close> array has \<open>N\<close> elements and whose
  \<open>buttonClicked\<close> is a function \<open>f\<close>, and a position \<open>i < N\<close>. The sheet shows \<open>N\<close> option
  buttons, in the order the buttons were supplied: the \<open>i\<close>-th of them shows the text
  and the icon of the \<open>i\<close>-th element of the array, and its click binding is
  \<open>buttonClicked(i)\<close>. Activating it calls \<open>f\<close> once, with the one argument \<open>i\<close>. If the
  call returns a truthy value, \<open>close()\<close> is called next and the overlay is leaving; if
  it returns anything else, nothing more happens and the visibility is what it was; if
  it throws, \<open>close()\<close> is not called either.
\<close>

theorem buttonClicked_invoked_with_index:
  assumes "i < length (elements h (field h (d c) ''buttons''))"
    and "field h (d c) ''buttonClicked'' = JFun f"
  shows "length (option_buttons h (d c)) = length (elements h (field h (d c) ''buttons'')) \<and>
         option_buttons h (d c) ! i =
           Node ''action-sheet-option'' (Some (ButtonClicked i))
             (shown (member_of h (elements h (field h (d c) ''buttons'') ! i) ''icon''))
             (Some (member_of h (elements h (field h (d c) ''buttons'') ! i) ''text'')) \<and>
         click (option_buttons h (d c) ! i) = Some (ButtonClicked i) \<and>
         activate fe h (option_buttons h (d c) ! i) c =
           (case fe f [JNum (of_nat i)] of
              Returns v \<Rightarrow>
                (Normal,
                 if truthy v
                 then c\<lparr>vis := Leaving,
                        trace := trace c @ [Invoked f [JNum (of_nat i)], CloseCalled]\<rparr>
                 else c\<lparr>trace := trace c @ [Invoked f [JNum (of_nat i)]]\<rparr>)
            | Throws e \<Rightarrow>
                (Abrupt (Uncaught e), c\<lparr>trace := trace c @ [Invoked f [JNum (of_nat i)]]\<rparr>))"
proof -
  have nth: "option_buttons h (d c) ! i =
      option_button h (i, elements h (field h (d c) ''buttons'') ! i)"
    using assms(1) by (simp add: option_buttons_eq nth_enumerate_eq)
  have len: "length (option_buttons h (d c)) = length (elements h (field h (d c) ''buttons''))"
    by (simp add: option_buttons_eq)
  have node: "option_buttons h (d c) ! i =
           Node ''action-sheet-option'' (Some (ButtonClicked i))
             (shown (member_of h (elements h (field h (d c) ''buttons'') ! i) ''icon''))
             (Some (member_of h (elements h (field h (d c) ''buttons'') ! i) ''text''))"
    by (simp add: nth option_button_def)
  have clk: "click (option_buttons h (d c) ! i) = Some (ButtonClicked i)"
    by (simp add: nth option_button_def)
  have act: "activate fe h (option_buttons h (d c) ! i) c = buttonClicked fe h (JNum (of_nat i)) c"
    by (simp add: activate_def clk)
  have run: "buttonClicked fe h (JNum (of_nat i)) c =
           (case fe f [JNum (of_nat i)] of
              Returns v \<Rightarrow>
                (Normal,
                 if truthy v
                 then c\<lparr>vis := Leaving,
                        trace := trace c @ [Invoked f [JNum (of_nat i)], CloseCalled]\<rparr>
                 else c\<lparr>trace := trace c @ [Invoked f [JNum (of_nat i)]]\<rparr>)
            | Throws e \<Rightarrow>
                (Abrupt (Uncaught e), c\<lparr>trace := trace c @ [Invoked f [JNum (of_nat i)]]\<rparr>))"
    by (simp add: buttonClicked_def assms(2) invoke_fun close_def split: outcome.splits)
  show ?thesis
    by (intro conjI len node clk) (simp only: act run)
qed

text \<open>
  On the documentation's example: the second button (index 1) is the one labelled
  \<open>Move\<close>; it makes \<open>buttonClicked\<close> return \<open>false\<close>, and the sheet stays visible. The first
  (index 0) is labelled \<open>Share This\<close> and closes the sheet.
\<close>

theorem buttonClicked_invoked_with_index_witness:
  "1 < length (elements usage_heap (field usage_heap 0 ''buttons'')) \<and>
   field usage_heap 0 ''buttonClicked'' = JFun 2 \<and>
   length (option_buttons usage_heap 0) = 2 \<and>
   label (option_buttons usage_heap 0 ! 1) = Some (JStr ''Move'') \<and>
   label (option_buttons usage_heap 0 ! 0) = Some (JStr ''Share This'') \<and>
   activate usage_fenv usage_heap (option_buttons usage_heap 0 ! 1)
       \<lparr>d = 0, vis = Visible, trace = []\<rparr> =
     (Normal, \<lparr>d = 0, vis = Visible, trace = [Invoked 2 [JNum 1]]\<rparr>) \<and>
   activate usage_fenv usage_heap (option_buttons usage_heap 0 ! 0)
       \<lparr>d = 0, vis = Visible, trace = []\<rparr> =
     (Normal, \<lparr>d = 0, vis = Leaving, trace = [Invoked 2 [JNum 0], CloseCalled]\<rparr>)"
proof -
  have b: "elements usage_heap (field usage_heap 0 ''buttons'') = [JRef 2, JRef 3]"
    by (simp add: usage_heap_def field_def obj_at_def elements_def arr_at_def)
  have f: "field usage_heap 0 ''buttonClicked'' = JFun 2"
    by (simp add: usage_heap_def field_def obj_at_def)
  have t: "member_of usage_heap (JRef 2) ''text'' = JStr ''Share This''"
          "member_of usage_heap (JRef 3) ''text'' = JStr ''Move''"
    by (simp_all add: member_of_def usage_heap_def field_def obj_at_def)
  let ?c = "\<lparr>d = 0, vis = Visible, trace = []\<rparr>"
  have n1: "1 < length (elements usage_heap (field usage_heap (d ?c) ''buttons''))"
    and n0: "0 < length (elements usage_heap (field usage_heap (d ?c) ''buttons''))"
    and fc: "field usage_heap (d ?c) ''buttonClicked'' = JFun 2"
    by (simp_all add: b f)
  note second = buttonClicked_invoked_with_index [OF n1 fc, where fe = usage_fenv]
  note first = buttonClicked_invoked_with_index [OF n0 fc, where fe = usage_fenv]
  have len: "length (option_buttons usage_heap 0) = 2"
    using second [THEN conjunct1] by (simp add: b)
  have l1: "label (option_buttons usage_heap 0 ! 1) = Some (JStr ''Move'')"
    using second [THEN conjunct2, THEN conjunct1] by (simp add: b t)
  have l0: "label (option_buttons usage_heap 0 ! 0) = Some (JStr ''Share This'')"
    using first [THEN conjunct2, THEN conjunct1] by (simp add: b t)
  have a1: "activate usage_fenv usage_heap (option_buttons usage_heap 0 ! 1) ?c =
      (Normal, \<lparr>d = 0, vis = Visible, trace = [Invoked 2 [JNum 1]]\<rparr>)"
    using second [THEN conjunct2, THEN conjunct2, THEN conjunct2]
    by (simp add: usage_fenv_def)
  have a0: "activate usage_fenv usage_heap (option_buttons usage_heap 0 ! 0) ?c =
      (Normal, \<lparr>d = 0, vis = Leaving, trace = [Invoked 2 [JNum 0], CloseCalled]\<rparr>)"
    using first [THEN conjunct2, THEN conjunct2, THEN conjunct2]
    by (simp add: usage_fenv_def)
  have n: "1 < length (elements usage_heap (field usage_heap 0 ''buttons''))"
    by (simp add: b)
  show ?thesis
    by (intro conjI n f len l1 l0 a1 a0)
qed

lemma cancel_nodes:
  assumes "n \<in> set (template h r)"
    and "tag n = ''backdrop'' \<or> tag n = ''action-sheet-cancel''"
  shows "click n = Some Cancel"
  using assms by (auto simp: template_def option_button_def split: if_splits)

text \<open>
  Claim C2 as stated fails: \<open>close()\<close> is not called on every cancel path. When the
  caller's \<open>cancel\<close> throws, the callback has been called once, the handler ends with
  what was thrown, and the sheet is still visible; when \<open>cancel\<close> is a truthy value
  that is not a function, calling it raises \<open>TypeError\<close> and the sheet is still
  visible. In both sheets the cancel button is the last node of the template.
\<close>

theorem cancel_always_closes_counterexample:
  "cancel throwing_fenv throwing_heap \<lparr>d = 0, vis = Visible, trace = []\<rparr> =
     (Abrupt (Uncaught (JStr ''cancel failed'')),
      \<lparr>d = 0, vis = Visible, trace = [Invoked 0 []]\<rparr>) \<and>
   activate throwing_fenv throwing_heap (last (template throwing_heap 0))
       \<lparr>d = 0, vis = Visible, trace = []\<rparr> =
     (Abrupt (Uncaught (JStr ''cancel failed'')),
      \<lparr>d = 0, vis = Visible, trace = [Invoked 0 []]\<rparr>) \<and>
   cancel usage_fenv misused_heap \<lparr>d = 0, vis = Visible, trace = []\<rparr> =
     (Abrupt TypeError, \<lparr>d = 0, vis = Visible, trace = []\<rparr>) \<and>
   activate usage_fenv misused_heap (last (template misused_heap 0))
       \<lparr>d = 0, vis = Visible, trace = []\<rparr> =
     (Abrupt TypeError, \<lparr>d = 0, vis = Visible, trace = []\<rparr>)"
proof -
  have f: "field throwing_heap 0 ''cancel'' = JFun 0"
          "field throwing_heap 0 ''cancelText'' = JStr ''Cancel''"
          "field misused_heap 0 ''cancel'' = JStr ''yes''"
          "field misused_heap 0 ''cancelText'' = JStr ''Cancel''"
    by (simp_all add: throwing_heap_def misused_heap_def field_def obj_at_def)
  have t: "last (template throwing_heap 0) =
             Node ''action-sheet-cancel'' (Some Cancel) None (Some (JStr ''Cancel''))"
          "last (template misused_heap 0) =
             Node ''action-sheet-cancel'' (Some Cancel) None (Some (JStr ''Cancel''))"
    by (simp_all add: template_def throwing_heap_def misused_heap_def field_def obj_at_def
        elements_def shown_def)
  have c: "cancel throwing_fenv throwing_heap \<lparr>d = 0, vis = Visible, trace = []\<rparr> =
      (Abrupt (Uncaught (JStr ''cancel failed'')),
       \<lparr>d = 0, vis = Visible, trace = [Invoked 0 []]\<rparr>)"
    by (simp add: cancel_def f invoke_fun throwing_fenv_def)
  have m: "cancel usage_fenv misused_heap \<lparr>d = 0, vis = Visible, trace = []\<rparr> =
      (Abrupt TypeError, \<lparr>d = 0, vis = Visible, trace = []\<rparr>)"
    by (simp add: cancel_def f invoke_def)
  show ?thesis
    by (simp add: t activate_def c m)
qed

text \<open>
  Claim C2, as the code has it. A cancel interaction is a click on the backdrop or on
  the cancel button: both run \<open>cancel()\<close>. When the options have no \<open>cancel\<close> (or a falsy
  one), nothing is called, no error is raised, and \<open>close()\<close> is called. When \<open>cancel\<close> is
  a function, it is called once, without arguments; if it returns, whatever the value,
  \<open>close()\<close> is called next. In these two cases the overlay is leaving afterwards. When
  the function throws, the handler ends with what was thrown and \<open>close()\<close> is not
  called; when \<open>cancel\<close> is truthy and not a function, the handler ends with
  \<open>TypeError\<close>, nothing has been called and \<open>close()\<close> is not called.
\<close>

theorem cancel_closes_unless_callback_raises:
  "(\<not> truthy (field h (d c) ''cancel'') \<longrightarrow>
      cancel fe h c = (Normal, c\<lparr>vis := Leaving, trace := trace c @ [CloseCalled]\<rparr>)) \<and>
   (field h (d c) ''cancel'' = JFun f \<and> fe f [] = Returns v \<longrightarrow>
      cancel fe h c =
        (Normal, c\<lparr>vis := Leaving, trace := trace c @ [Invoked f [], CloseCalled]\<rparr>)) \<and>
   (field h (d c) ''cancel'' = JFun f \<and> fe f [] = Throws e \<longrightarrow>
      cancel fe h c = (Abrupt (Uncaught e), c\<lparr>trace := trace c @ [Invoked f []]\<rparr>)) \<and>
   (truthy (field h (d c) ''cancel'') \<and> (\<forall>g. field h (d c) ''cancel'' \<noteq> JFun g) \<longrightarrow>
      cancel fe h c = (Abrupt TypeError, c)) \<and>
   (\<forall>n \<in> set (template h (d c)).
      tag n = ''backdrop'' \<or> tag n = ''action-sheet-cancel'' \<longrightarrow>
        activate fe h n c = cancel fe h c)"
proof (intro conjI impI ballI)
  assume "\<not> truthy (field h (d c) ''cancel'')"
  then show "cancel fe h c = (Normal, c\<lparr>vis := Leaving, trace := trace c @ [CloseCalled]\<rparr>)"
    by (simp add: cancel_def close_def)
next
  assume "field h (d c) ''cancel'' = JFun f \<and> fe f [] = Returns v"
  then show "cancel fe h c =
      (Normal, c\<lparr>vis := Leaving, trace := trace c @ [Invoked f [], CloseCalled]\<rparr>)"
    by (simp add: cancel_def close_def invoke_fun)
next
  assume "field h (d c) ''cancel'' = JFun f \<and> fe f [] = Throws e"
  then show "cancel fe h c = (Abrupt (Uncaught e), c\<lparr>trace := trace c @ [Invoked f []]\<rparr>)"
    by (simp add: cancel_def invoke_fun)
next
  assume a: "truthy (field h (d c) ''cancel'') \<and> (\<forall>g. field h (d c) ''cancel'' \<noteq> JFun g)"
  then have "invoke fe (field h (d c) ''cancel'') [] c = (Inl TypeError, c)"
    by (cases "field h (d c) ''cancel''") (simp_all add: invoke_def)
  then show "cancel fe h c = (Abrupt TypeError, c)"
    using a by (simp add: cancel_def)
next
  fix n
  assume "n \<in> set (template h (d c))"
    and "tag n = ''backdrop'' \<or> tag n = ''action-sheet-cancel''"
  then have "click n = Some Cancel"
    by (rule cancel_nodes)
  then show "activate fe h n c = cancel fe h c"
    by (simp add: activate_def)
qed

text \<open>
  On the documentation's example the \<open>cancel\<close> callback returns nothing and the sheet
  closes; on the options without callbacks nothing is called and the sheet closes. The
  backdrop is the first node of the template, the cancel button the last. A \<open>cancel\<close>
  that throws leaves the sheet visible.
\<close>

theorem cancel_closes_unless_callback_raises_witness:
  "cancel usage_fenv usage_heap \<lparr>d = 0, vis = Visible, trace = []\<rparr> =
     (Normal, \<lparr>d = 0, vis = Leaving, trace = [Invoked 0 [], CloseCalled]\<rparr>) \<and>
   cancel usage_fenv bare_heap \<lparr>d = 0, vis = Visible, trace = []\<rparr> =
     (Normal, \<lparr>d = 0, vis = Leaving, trace = [CloseCalled]\<rparr>) \<and>
   activate usage_fenv bare_heap (hd (template bare_heap 0)) \<lparr>d = 0, vis = Visible, trace = []\<rparr> =
     (Normal, \<lparr>d = 0, vis = Leaving, trace = [CloseCalled]\<rparr>) \<and>
   activate usage_fenv bare_heap (last (template bare_heap 0)) \<lparr>d = 0, vis = Visible, trace = []\<rparr> =
     (Normal, \<lparr>d = 0, vis = Leaving, trace = [CloseCalled]\<rparr>) \<and>
   cancel throwing_fenv throwing_heap \<lparr>d = 0, vis = Visible, trace = []\<rparr> =
     (Abrupt (Uncaught (JStr ''cancel failed'')),
      \<lparr>d = 0, vis = Visible, trace = [Invoked 0 []]\<rparr>)"
proof -
  have u: "field usage_heap 0 ''cancel'' = JFun 0"
    by (simp add: usage_heap_def field_def obj_at_def)
  have b: "field bare_heap 0 ''cancel'' = JUndefined"
    by (simp add: bare_heap_def field_def obj_at_def)
  have x: "field throwing_heap 0 ''cancel'' = JFun 0"
    by (simp add: throwing_heap_def field_def obj_at_def)
  have t: "template bare_heap 0 =
      [Node ''backdrop'' (Some Cancel) None None,
       Node ''action-sheet-option'' (Some (ButtonClicked 0)) None (Some (JStr ''Share This'')),
       Node ''action-sheet-destructive'' (Some Destructive) None (Some (JStr ''Delete'')),
       Node ''action-sheet-cancel'' (Some Cancel) None (Some (JStr ''Cancel''))]"
    by (simp add: template_def bare_heap_def field_def obj_at_def elements_def arr_at_def
        option_button_def member_of_def shown_def)
  show ?thesis
    using cancel_closes_unless_callback_raises
            [where h = usage_heap and c = "\<lparr>d = 0, vis = Visible, trace = []\<rparr>"
               and fe = usage_fenv and f = 0 and v = JUndefined]
          cancel_closes_unless_callback_raises
            [where h = bare_heap and c = "\<lparr>d = 0, vis = Visible, trace = []\<rparr>"
               and fe = usage_fenv]
          cancel_closes_unless_callback_raises
            [where h = throwing_heap and c = "\<lparr>d = 0, vis = Visible, trace = []\<rparr>"
               and fe = throwing_fenv and f = 0 and e = "JStr ''cancel failed''"]
    by (simp add: u b x t usage_fenv_def throwing_fenv_def)
qed

text \<open>
  Claim C3. On options that leave \<open>buttonClicked\<close> and \<open>destructiveButtonClicked\<close> out,
  activating an option button or the destructive button does not close the overlay,
  and the component is left as it was; but the handler does not complete: the call of
  the absent callback raises \<open>TypeError\<close>. The cancel handler, on the same options,
  tests for its callback first and completes.
\<close>

theorem absent_callback_raises:
  "activate fe bare_heap (option_buttons bare_heap 0 ! 0) \<lparr>d = 0, vis = Visible, trace = []\<rparr> =
     (Abrupt TypeError, \<lparr>d = 0, vis = Visible, trace = []\<rparr>) \<and>
   activate fe bare_heap (template bare_heap 0 ! 2) \<lparr>d = 0, vis = Visible, trace = []\<rparr> =
     (Abrupt TypeError, \<lparr>d = 0, vis = Visible, trace = []\<rparr>) \<and>
   click (template bare_heap 0 ! 2) = Some Destructive \<and>
   click (option_buttons bare_heap 0 ! 0) = Some (ButtonClicked 0) \<and>
   activate fe bare_heap (template bare_heap 0 ! 3) \<lparr>d = 0, vis = Visible, trace = []\<rparr> =
     (Normal, \<lparr>d = 0, vis = Leaving, trace = [CloseCalled]\<rparr>)"
proof -
  have t: "template bare_heap 0 =
      [Node ''backdrop'' (Some Cancel) None None,
       Node ''action-sheet-option'' (Some (ButtonClicked 0)) None (Some (JStr ''Share This'')),
       Node ''action-sheet-destructive'' (Some Destructive) None (Some (JStr ''Delete'')),
       Node ''action-sheet-cancel'' (Some Cancel) None (Some (JStr ''Cancel''))]"
    by (simp add: template_def bare_heap_def field_def obj_at_def elements_def arr_at_def
        option_button_def member_of_def shown_def)
  have f: "field bare_heap 0 ''buttonClicked'' = JUndefined"
          "field bare_heap 0 ''destructiveButtonClicked'' = JUndefined"
          "field bare_heap 0 ''cancel'' = JUndefined"
    by (simp_all add: bare_heap_def field_def obj_at_def)
  show ?thesis
    by (simp add: option_buttons_def t activate_def buttonClicked_def destructive_def cancel_def
        f invoke_undefined close_def)
qed

section \<open>Properties of the service\<close>

lemma obj_at_append_old: "r < length h \<Longrightarrow> obj_at (h @ [c]) r = obj_at h r"
  by (simp add: obj_at_def nth_append)

lemma obj_at_append_new: "obj_at (h @ [HObj m]) (length h) = Some m"
  by (simp add: obj_at_def)

lemma obj_at_some_less: "obj_at h r = Some m \<Longrightarrow> r < length h"
  by (simp add: obj_at_def split: if_splits)

text \<open>What \<open>open\<close> does before it calls the controller, case by case.\<close>

lemma open_some_unfold:
  "ActionSheet_open k (Some r) w =
     (case util_extend (length (objects w)) r
             (w\<lparr>objects := objects w @ [HObj (default_options w)]\<rparr>) of
        (merged, w7) \<Rightarrow> k ActionSheetCmp merged merged w7)"
  by (simp add: ActionSheet_open_def config_get_def new_object_def alloc_def default_options_def)

lemma util_extend_new:
  "util_extend (length (objects w)) src (w\<lparr>objects := objects w @ [HObj a]\<rparr>) =
     (length (objects w),
      w\<lparr>objects := objects w @
        [HObj (case obj_at (objects w @ [HObj a]) src of None \<Rightarrow> a | Some b \<Rightarrow> a ++ b)]\<rparr>)"
  by (simp add: util_extend_def obj_at_append_new split: option.splits)

lemma open_some_shape:
  "ActionSheet_open handed_over (Some r) w =
     (length (objects w), length (objects w),
      w\<lparr>objects := objects w @
        [HObj (case obj_at (objects w @ [HObj (default_options w)]) r of
                 None \<Rightarrow> default_options w | Some b \<Rightarrow> default_options w ++ b)]\<rparr>)"
  by (simp add: open_some_unfold util_extend_new handed_over_def)

lemma open_given:
  assumes "obj_at (objects w) r = Some m"
  shows "ActionSheet_open handed_over (Some r) w =
           (length (objects w), length (objects w),
            w\<lparr>objects := objects w @ [HObj (default_options w ++ m)]\<rparr>)"
proof -
  have "r < length (objects w)" using assms by (rule obj_at_some_less)
  then show ?thesis
    using assms by (simp add: open_some_shape obj_at_append_old)
qed

lemma open_omitted:
  "ActionSheet_open handed_over None w =
     (Suc (length (objects w)), Suc (length (objects w)),
      w\<lparr>objects := objects w @ [HObj Map.empty, HObj (default_options w)]\<rparr>)"
  by (simp add: ActionSheet_open_def config_get_def new_object_def alloc_def util_extend_def
      obj_at_def nth_append default_options_def list_update_append handed_over_def)

text \<open>\<open>open\<close> does nothing with the controller but the one call at its end.\<close>

lemma open_via_handed_over:
  "ActionSheet_open k opts w =
     (case ActionSheet_open handed_over opts w of (dat, pr, w') \<Rightarrow> k ActionSheetCmp dat pr w')"
  by (simp add: ActionSheet_open_def handed_over_def split: prod.splits option.splits)

lemma open_merged_object:
  assumes "caller_options w opts = Some m"
    and "ActionSheet_open handed_over opts w = (dat, pr, w')"
  shows "dat = pr \<and> obj_at (objects w') dat = Some (default_options w ++ m)"
proof (cases opts)
  case None
  then have "m = Map.empty" using assms(1) by (simp add: caller_options_def)
  moreover have "dat = Suc (length (objects w))" "pr = dat"
       "objects w' = objects w @ [HObj Map.empty, HObj (default_options w)]"
    using assms(2) None by (auto simp: open_omitted)
  ultimately show ?thesis by (simp add: obj_at_def nth_append)
next
  case (Some r)
  then have r: "obj_at (objects w) r = Some m" using assms(1) by (simp add: caller_options_def)
  have "dat = length (objects w)" "pr = dat"
       "objects w' = objects w @ [HObj (default_options w ++ m)]"
    using assms(2) Some by (auto simp: open_given [OF r])
  then show ?thesis by (simp add: obj_at_append_new)
qed

text \<open>
  Claim C4. \<open>open\<close> is called with the caller's options \<open>m\<close> (the empty object when
  there is no argument) and hands the object \<open>dat\<close> to the controller, as data and as
  props. Every property the caller supplied has the caller's value in \<open>dat\<close>. Where the
  caller supplied no \<open>enterAnimation\<close>, \<open>dat\<close> has the configuration's value for
  \<open>actionSheetEnter\<close>; likewise \<open>leaveAnimation\<close> and \<open>actionSheetLeave\<close>, \<open>cancelIcon\<close> and
  \<open>actionSheetCancelIcon\<close>, \<open>destructiveIcon\<close> and \<open>actionSheetDestructiveIcon\<close>.
\<close>

theorem open_merges_defaults:
  assumes "caller_options w opts = Some m"
    and "ActionSheet_open handed_over opts w = (dat, pr, w')"
  shows "dat = pr \<and>
         (\<forall>k v. m k = Some v \<longrightarrow> field (objects w') dat k = v) \<and>
         (m ''enterAnimation'' = None \<longrightarrow>
            field (objects w') dat ''enterAnimation'' = fst (config_get ''actionSheetEnter'' w)) \<and>
         (m ''leaveAnimation'' = None \<longrightarrow>
            field (objects w') dat ''leaveAnimation'' = fst (config_get ''actionSheetLeave'' w)) \<and>
         (m ''cancelIcon'' = None \<longrightarrow>
            field (objects w') dat ''cancelIcon'' = fst (config_get ''actionSheetCancelIcon'' w)) \<and>
         (m ''destructiveIcon'' = None \<longrightarrow>
            field (objects w') dat ''destructiveIcon'' =
              fst (config_get ''actionSheetDestructiveIcon'' w))"
proof -
  have e: "dat = pr"
    and o: "obj_at (objects w') dat = Some (default_options w ++ m)"
    using open_merged_object [OF assms] by auto
  have f: "field (objects w') dat k =
      (case (default_options w ++ m) k of None \<Rightarrow> JUndefined | Some v \<Rightarrow> v)" for k
    by (simp add: field_def o)
  show ?thesis
    unfolding f using e by (simp add: default_options_def map_add_def)
qed

text \<open>
  The spec's example: \<open>open({})\<close> under a configuration with
  \<open>actionSheetEnter = 'slide-in'\<close> gives merged options with
  \<open>enterAnimation === 'slide-in'\<close>; and a caller's own \<open>enterAnimation\<close> wins.
\<close>

theorem open_merges_defaults_witness:
  "caller_options
     \<lparr>objects = [HObj Map.empty, HObj [''enterAnimation'' \<mapsto> JStr ''fade'']],
      config = [''actionSheetEnter'' \<mapsto> JStr ''slide-in''], overlays = []\<rparr> (Some 0) =
     Some Map.empty \<and>
   field (objects (snd (snd (ActionSheet_open handed_over (Some 0)
      \<lparr>objects = [HObj Map.empty, HObj [''enterAnimation'' \<mapsto> JStr ''fade'']],
       config = [''actionSheetEnter'' \<mapsto> JStr ''slide-in''], overlays = []\<rparr>)))) 2
      ''enterAnimation'' = JStr ''slide-in'' \<and>
   field (objects (snd (snd (ActionSheet_open handed_over (Some 1)
      \<lparr>objects = [HObj Map.empty, HObj [''enterAnimation'' \<mapsto> JStr ''fade'']],
       config = [''actionSheetEnter'' \<mapsto> JStr ''slide-in''], overlays = []\<rparr>)))) 2
      ''enterAnimation'' = JStr ''fade''"
proof -
  let ?w = "\<lparr>objects = [HObj Map.empty, HObj [''enterAnimation'' \<mapsto> JStr ''fade'']],
      config = [''actionSheetEnter'' \<mapsto> JStr ''slide-in''], overlays = []\<rparr>"
  have c0: "caller_options ?w (Some 0) = Some Map.empty"
    by (simp add: caller_options_def obj_at_def)
  have c1: "caller_options ?w (Some 1) = Some [''enterAnimation'' \<mapsto> JStr ''fade'']"
    by (simp add: caller_options_def obj_at_def)
  obtain w0 where o0: "ActionSheet_open handed_over (Some 0) ?w = (2, 2, w0)"
    by (simp add: open_some_shape)
  obtain w1 where o1: "ActionSheet_open handed_over (Some 1) ?w = (2, 2, w1)"
    by (simp add: open_some_shape)
  have f0: "field (objects w0) 2 ''enterAnimation'' = JStr ''slide-in''"
    using open_merges_defaults [OF c0 o0] by (simp add: config_get_def)
  have "[''enterAnimation'' \<mapsto> JStr ''fade''] ''enterAnimation'' = Some (JStr ''fade'')"
    by simp
  then have f1: "field (objects w1) 2 ''enterAnimation'' = JStr ''fade''"
    using open_merges_defaults [OF c1 o1] by blast
  show ?thesis
    unfolding o0 o1 using c0 f0 f1 by simp
qed

lemma default_options_config:
  assumes "cfg ''actionSheetEnter'' = config w ''actionSheetEnter''"
    and "cfg ''actionSheetLeave'' = config w ''actionSheetLeave''"
    and "cfg ''actionSheetCancelIcon'' = config w ''actionSheetCancelIcon''"
    and "cfg ''actionSheetDestructiveIcon'' = config w ''actionSheetDestructiveIcon''"
  shows "default_options (w\<lparr>config := cfg\<rparr>) = default_options w"
  using assms by (simp add: default_options_def config_get_def)

lemma open_handed_ref:
  "fst (ActionSheet_open handed_over opts w) =
     (case opts of None \<Rightarrow> Suc (length (objects w)) | Some r \<Rightarrow> length (objects w))"
  by (cases opts) (simp_all add: open_omitted open_some_shape)

lemma open_handed_objects:
  "objects (snd (snd (ActionSheet_open handed_over opts w))) =
     (case opts of
        None \<Rightarrow> objects w @ [HObj Map.empty, HObj (default_options w)]
      | Some r \<Rightarrow>
          objects w @
          [HObj (case obj_at (objects w @ [HObj (default_options w)]) r of
                   None \<Rightarrow> default_options w | Some b \<Rightarrow> default_options w ++ b)])"
  by (cases opts) (simp_all add: open_omitted open_some_shape)

text \<open>
  Claim C8. Up to the call of the controller, \<open>open\<close> leaves the configuration as it
  was and registers nothing; the object it hands over is a new one, not one of the
  objects that existed before the call; and every object that existed before the
  call, the caller's options among them, is unchanged. Of the configuration \<open>open\<close>
  reads the four \<open>actionSheet\<close> keys only: under any other configuration that agrees
  on these four, it hands over the same reference and leaves the same objects.
\<close>

theorem open_frame:
  assumes "ActionSheet_open handed_over opts w = (dat, pr, w')"
  shows "config w' = config w \<and> overlays w' = overlays w \<and>
         length (objects w) \<le> dat \<and> dat < length (objects w') \<and>
         (\<forall>r < length (objects w). objects w' ! r = objects w ! r) \<and>
         (cfg ''actionSheetEnter'' = config w ''actionSheetEnter'' \<and>
          cfg ''actionSheetLeave'' = config w ''actionSheetLeave'' \<and>
          cfg ''actionSheetCancelIcon'' = config w ''actionSheetCancelIcon'' \<and>
          cfg ''actionSheetDestructiveIcon'' = config w ''actionSheetDestructiveIcon'' \<longrightarrow>
          fst (ActionSheet_open handed_over opts (w\<lparr>config := cfg\<rparr>)) = dat \<and>
          objects (snd (snd (ActionSheet_open handed_over opts (w\<lparr>config := cfg\<rparr>)))) =
            objects w')"
proof -
  have frame: "config w' = config w \<and> overlays w' = overlays w \<and>
         length (objects w) \<le> dat \<and> dat < length (objects w') \<and>
         (\<forall>r < length (objects w). objects w' ! r = objects w ! r)"
  proof (cases opts)
    case None
    have "dat = Suc (length (objects w))"
         "w' = w\<lparr>objects := objects w @ [HObj Map.empty, HObj (default_options w)]\<rparr>"
      using assms None by (auto simp: open_omitted)
    then show ?thesis by (simp add: nth_append)
  next
    case (Some r)
    have "dat = length (objects w) \<and> (\<exists>X. w' = w\<lparr>objects := objects w @ [HObj X]\<rparr>)"
      using assms Some by (auto simp: open_some_shape)
    then show ?thesis by (auto simp: nth_append)
  qed
  have reads: "fst (ActionSheet_open handed_over opts (w\<lparr>config := cfg\<rparr>)) = dat \<and>
          objects (snd (snd (ActionSheet_open handed_over opts (w\<lparr>config := cfg\<rparr>)))) =
            objects w'"
    if "cfg ''actionSheetEnter'' = config w ''actionSheetEnter'' \<and>
          cfg ''actionSheetLeave'' = config w ''actionSheetLeave'' \<and>
          cfg ''actionSheetCancelIcon'' = config w ''actionSheetCancelIcon'' \<and>
          cfg ''actionSheetDestructiveIcon'' = config w ''actionSheetDestructiveIcon''"
  proof -
    have dflt: "default_options (w\<lparr>config := cfg\<rparr>) = default_options w"
      using that by (intro default_options_config) simp_all
    have here: "fst (ActionSheet_open handed_over opts w) = dat"
               "objects (snd (snd (ActionSheet_open handed_over opts w))) = objects w'"
      by (simp_all add: assms)
    have "fst (ActionSheet_open handed_over opts (w\<lparr>config := cfg\<rparr>)) =
        fst (ActionSheet_open handed_over opts w)"
      by (simp add: open_handed_ref split: option.splits)
    moreover have "objects (snd (snd (ActionSheet_open handed_over opts (w\<lparr>config := cfg\<rparr>)))) =
        objects (snd (snd (ActionSheet_open handed_over opts w)))"
      by (cases opts) (simp_all add: open_handed_objects dflt cong: option.case_cong)
    ultimately show ?thesis
      by (simp only: here)
  qed
  show ?thesis
    using frame reads by blast
qed

text \<open>
  A caller's object with its own \<open>enterAnimation\<close> is the same object after \<open>open\<close>, and
  the configuration is the same configuration.
\<close>

theorem open_frame_witness:
  "config (snd (snd (ActionSheet_open handed_over (Some 0)
      \<lparr>objects = [HObj [''enterAnimation'' \<mapsto> JStr ''fade'']],
       config = [''actionSheetEnter'' \<mapsto> JStr ''slide-in''], overlays = []\<rparr>))) =
     [''actionSheetEnter'' \<mapsto> JStr ''slide-in''] \<and>
   objects (snd (snd (ActionSheet_open handed_over (Some 0)
      \<lparr>objects = [HObj [''enterAnimation'' \<mapsto> JStr ''fade'']],
       config = [''actionSheetEnter'' \<mapsto> JStr ''slide-in''], overlays = []\<rparr>))) ! 0 =
     HObj [''enterAnimation'' \<mapsto> JStr ''fade''] \<and>
   fst (ActionSheet_open handed_over (Some 0)
      \<lparr>objects = [HObj [''enterAnimation'' \<mapsto> JStr ''fade'']],
       config = [''actionSheetEnter'' \<mapsto> JStr ''slide-in''], overlays = []\<rparr>) = 1"
proof -
  let ?w = "\<lparr>objects = [HObj [''enterAnimation'' \<mapsto> JStr ''fade'']],
       config = [''actionSheetEnter'' \<mapsto> JStr ''slide-in''], overlays = []\<rparr>"
  obtain w' where o: "ActionSheet_open handed_over (Some 0) ?w = (1, 1, w')"
    by (simp add: open_some_shape)
  show ?thesis
    using open_frame [OF o] by (simp add: o)
qed

lemma ctrl_open_Inr:
  assumes "ctrl_open hnd ActionSheetCmp dat pr w = Inr (ov, w')"
  shows "ov = \<lparr>handle = hnd, pageType = field (objects w) pr ''pageType'',
               inst = \<lparr>d = dat, vis = Visible, trace = []\<rparr>, props = pr\<rparr> \<and>
         w' = w\<lparr>overlays := ov # overlays w\<rparr>"
  using assms by (auto simp: ctrl_open_def ActionSheetCmp_def split: if_splits)

lemma find_unique:
  assumes "x \<in> set xs" and "P x" and "\<forall>y \<in> set xs. P y \<longrightarrow> y = x"
  shows "find P xs = Some x"
  using assms
proof (induction xs)
  case Nil
  then show ?case by simp
next
  case (Cons a xs)
  show ?case
  proof (cases "P a")
    case True
    then have "a = x" using Cons.prems(3) by simp
    then show ?thesis using True by simp
  next
    case False
    then have "x \<in> set xs" using Cons.prems(1,2) by (cases "x = a") simp_all
    moreover have "\<forall>y \<in> set xs. P y \<longrightarrow> y = x" using Cons.prems(3) by simp
    ultimately have "find P xs = Some x" using Cons.IH Cons.prems(2) by blast
    then show ?thesis using False by simp
  qed
qed

lemma find_first:
  "P x \<Longrightarrow> (\<forall>y \<in> set pre. \<not> P y) \<Longrightarrow> find P (pre @ x # post) = Some x"
  by (induction pre) auto

lemma find_none: "(\<forall>y \<in> set xs. \<not> P y) \<Longrightarrow> find P xs = None"
  by (induction xs) auto

text \<open>
  Claim C5. \<open>open\<close> is called with the caller's options \<open>m\<close>, the controller gives the
  overlay the (truthy) handle \<open>hnd\<close>, and \<open>open\<close> resolves with the overlay \<open>ov\<close>. Then
  \<open>get(hnd)\<close> returns \<open>ov\<close>. The options of its instance are the object that \<open>open\<close>
  handed to the controller, the same one as data and as props, and that object holds
  the defaults read from the configuration, overridden by \<open>m\<close>.
\<close>

theorem open_then_get:
  assumes "caller_options w opts = Some m"
    and "ActionSheet_open (ctrl_open hnd) opts w = Inr (ov, w')"
    and "truthy hnd"
  shows "ActionSheet_get getByHandle getByType hnd w' = (Some ov, w') \<and>
         handle ov = hnd \<and> d (inst ov) = props ov \<and> vis (inst ov) = Visible \<and>
         obj_at (objects w') (d (inst ov)) =
           Some ([''pageType'' \<mapsto> OVERLAY_TYPE,
                  ''enterAnimation'' \<mapsto> fst (config_get ''actionSheetEnter'' w),
                  ''leaveAnimation'' \<mapsto> fst (config_get ''actionSheetLeave'' w),
                  ''cancelIcon'' \<mapsto> fst (config_get ''actionSheetCancelIcon'' w),
                  ''destructiveIcon'' \<mapsto> fst (config_get ''actionSheetDestructiveIcon'' w)]
                 ++ m) \<and>
         fst (ActionSheet_open handed_over opts w) = d (inst ov) \<and>
         fst (snd (ActionSheet_open handed_over opts w)) = d (inst ov)"
proof -
  obtain dat pr w1 where ho: "ActionSheet_open handed_over opts w = (dat, pr, w1)"
    by (metis prod_cases3)
  note merged = open_merged_object [OF assms(1) ho]
  have eq: "dat = pr" using merged by (rule conjunct1)
  have obj: "obj_at (objects w1) dat = Some (default_options w ++ m)"
    using merged by (rule conjunct2)
  have co: "ctrl_open hnd ActionSheetCmp dat pr w1 = Inr (ov, w')"
    using assms(2) by (simp add: open_via_handed_over [of "ctrl_open hnd"] ho)
  note shape = ctrl_open_Inr [OF co]
  have ov: "handle ov = hnd" "d (inst ov) = dat" "props ov = pr" "vis (inst ov) = Visible"
    using shape by (cases ov; simp)+
  have w': "overlays w' = ov # overlays w1" "objects w' = objects w1"
    using shape by simp_all
  have get: "ActionSheet_get getByHandle getByType hnd w' = (Some ov, w')"
    using assms(3) by (simp add: ActionSheet_get_def getByHandle_def w' ov)
  have same: "d (inst ov) = props ov"
    by (simp only: ov eq)
  have held: "obj_at (objects w') (d (inst ov)) = Some (default_options w ++ m)"
    by (simp only: ov w' obj)
  have data: "fst (ActionSheet_open handed_over opts w) = d (inst ov)"
    by (simp only: ho ov fst_conv)
  have rprops: "fst (snd (ActionSheet_open handed_over opts w)) = d (inst ov)"
    by (simp only: ho ov eq fst_conv snd_conv)
  show ?thesis
    by (intro conjI get ov(1) same ov(4) held [unfolded default_options_def] data rprops)
qed

text \<open>
  \<open>open({})\<close> under a configuration with \<open>actionSheetEnter = 'slide-in'\<close>, the controller
  choosing the handle \<open>'sheet-1'\<close>: the call resolves, and \<open>get('sheet-1')\<close> gives the
  instance, whose options have \<open>enterAnimation = 'slide-in'\<close>.
\<close>

theorem open_then_get_witness:
  "(case ActionSheet_open (ctrl_open (JStr ''sheet-1'')) (Some 0)
           \<lparr>objects = [HObj Map.empty],
            config = [''actionSheetEnter'' \<mapsto> JStr ''slide-in''], overlays = []\<rparr> of
      Inl e \<Rightarrow> False
    | Inr (ov, w') \<Rightarrow>
        fst (ActionSheet_get getByHandle getByType (JStr ''sheet-1'') w') = Some ov \<and>
        d (inst ov) = 1 \<and>
        field (objects w') (d (inst ov)) ''enterAnimation'' = JStr ''slide-in'' \<and>
        field (objects w') (d (inst ov)) ''pageType'' = JStr ''action-sheet'')"
proof -
  let ?w = "\<lparr>objects = [HObj Map.empty],
            config = [''actionSheetEnter'' \<mapsto> JStr ''slide-in''], overlays = []\<rparr>"
  have c: "caller_options ?w (Some 0) = Some Map.empty"
    by (simp add: caller_options_def obj_at_def)
  have t: "truthy (JStr ''sheet-1'')" by simp
  have ho: "ActionSheet_open handed_over (Some 0) ?w =
      (1, 1, ?w\<lparr>objects := [HObj Map.empty, HObj (default_options ?w)]\<rparr>)"
    by (simp add: open_some_shape obj_at_def)
  have "\<exists>ov w'. ActionSheet_open (ctrl_open (JStr ''sheet-1'')) (Some 0) ?w = Inr (ov, w')"
    by (simp add: open_via_handed_over [of "ctrl_open (JStr ''sheet-1'')"] ho ctrl_open_def
        ActionSheetCmp_def field_def obj_at_def default_options_def)
  then obtain ov w'
    where r: "ActionSheet_open (ctrl_open (JStr ''sheet-1'')) (Some 0) ?w = Inr (ov, w')"
    by (elim exE)
  note claim = open_then_get [OF c r t]
  have g: "fst (ActionSheet_get getByHandle getByType (JStr ''sheet-1'') w') = Some ov"
    using claim by simp
  have i: "d (inst ov) = 1"
    using claim [THEN conjunct2, THEN conjunct2, THEN conjunct2, THEN conjunct2, THEN conjunct2]
    by (simp add: ho)
  note o = claim [THEN conjunct2, THEN conjunct2, THEN conjunct2, THEN conjunct2, THEN conjunct1]
  have e: "field (objects w') (d (inst ov)) ''enterAnimation'' = JStr ''slide-in''"
    and p: "field (objects w') (d (inst ov)) ''pageType'' = JStr ''action-sheet''"
    unfolding field_def o by (simp_all add: config_get_def OVERLAY_TYPE_def)
  show ?thesis
    unfolding r sum.case prod.case by (intro conjI g i e p)
qed

text \<open>
  Claim C6. With a handle given (a truthy one, as \<open>get\<close> tests it): when the handles
  of the registry are distinct and an overlay is registered under the handle, \<open>get\<close>
  returns that overlay; when none is registered under it, \<open>get\<close> returns the not-found
  value \<open>None\<close>, not an error. With no handle, \<open>get\<close> returns the most recent overlay
  of type \<open>'action-sheet'\<close>, and \<open>None\<close> when there is none. In every case the world
  after \<open>get\<close> is the world before it.
\<close>

theorem get_lookup:
  "(truthy hnd \<longrightarrow>
      (\<forall>ov \<in> set (overlays w). handle ov = hnd \<and> distinct (map handle (overlays w)) \<longrightarrow>
         fst (ActionSheet_get getByHandle getByType hnd w) = Some ov) \<and>
      ((\<forall>ov \<in> set (overlays w). handle ov \<noteq> hnd) \<longrightarrow>
         fst (ActionSheet_get getByHandle getByType hnd w) = None)) \<and>
   (\<forall>pre ov post. overlays w = pre @ ov # post \<and> pageType ov = JStr ''action-sheet'' \<and>
        (\<forall>p \<in> set pre. pageType p \<noteq> JStr ''action-sheet'') \<longrightarrow>
      fst (ActionSheet_get getByHandle getByType JUndefined w) = Some ov) \<and>
   ((\<forall>ov \<in> set (overlays w). pageType ov \<noteq> JStr ''action-sheet'') \<longrightarrow>
      fst (ActionSheet_get getByHandle getByType JUndefined w) = None) \<and>
   snd (ActionSheet_get getByHandle getByType hnd w) = w"
proof (intro conjI impI ballI allI)
  fix ov
  assume t: "truthy hnd" and "ov \<in> set (overlays w)"
    and "handle ov = hnd \<and> distinct (map handle (overlays w))"
  then have "find (\<lambda>x. handle x = hnd) (overlays w) = Some ov"
    by (intro find_unique) (auto simp: distinct_map dest: inj_onD)
  then show "fst (ActionSheet_get getByHandle getByType hnd w) = Some ov"
    using t by (simp add: ActionSheet_get_def getByHandle_def)
next
  assume "truthy hnd" and "\<forall>ov \<in> set (overlays w). handle ov \<noteq> hnd"
  then show "fst (ActionSheet_get getByHandle getByType hnd w) = None"
    by (simp add: ActionSheet_get_def getByHandle_def find_none)
next
  fix pre ov post
  assume "overlays w = pre @ ov # post \<and> pageType ov = JStr ''action-sheet'' \<and>
        (\<forall>p \<in> set pre. pageType p \<noteq> JStr ''action-sheet'')"
  then show "fst (ActionSheet_get getByHandle getByType JUndefined w) = Some ov"
    by (simp add: ActionSheet_get_def getByType_def OVERLAY_TYPE_def find_first)
next
  assume "\<forall>ov \<in> set (overlays w). pageType ov \<noteq> JStr ''action-sheet''"
  then show "fst (ActionSheet_get getByHandle getByType JUndefined w) = None"
    by (simp add: ActionSheet_get_def getByType_def OVERLAY_TYPE_def find_none)
next
  show "snd (ActionSheet_get getByHandle getByType hnd w) = w"
    by (simp add: ActionSheet_get_def getByHandle_def getByType_def)
qed

text \<open>
  A registry with two action sheets and a page of another type opened last: the handle
  \<open>'a'\<close> finds the first sheet, an unknown handle finds nothing, and no handle finds
  the more recent of the two sheets. The world is the same afterwards.
\<close>

theorem get_lookup_witness:
  "fst (ActionSheet_get getByHandle getByType (JStr ''a'')
         \<lparr>objects = [], config = Map.empty,
          overlays =
            [\<lparr>handle = JStr ''c'', pageType = JStr ''popup'',
              inst = \<lparr>d = 2, vis = Visible, trace = []\<rparr>, props = 2\<rparr>,
             \<lparr>handle = JStr ''b'', pageType = JStr ''action-sheet'',
              inst = \<lparr>d = 1, vis = Visible, trace = []\<rparr>, props = 1\<rparr>,
             \<lparr>handle = JStr ''a'', pageType = JStr ''action-sheet'',
              inst = \<lparr>d = 0, vis = Visible, trace = []\<rparr>, props = 0\<rparr>]\<rparr>) =
     Some \<lparr>handle = JStr ''a'', pageType = JStr ''action-sheet'',
           inst = \<lparr>d = 0, vis = Visible, trace = []\<rparr>, props = 0\<rparr> \<and>
   fst (ActionSheet_get getByHandle getByType (JStr ''z'')
         \<lparr>objects = [], config = Map.empty,
          overlays =
            [\<lparr>handle = JStr ''c'', pageType = JStr ''popup'',
              inst = \<lparr>d = 2, vis = Visible, trace = []\<rparr>, props = 2\<rparr>,
             \<lparr>handle = JStr ''b'', pageType = JStr ''action-sheet'',
              inst = \<lparr>d = 1, vis = Visible, trace = []\<rparr>, props = 1\<rparr>,
             \<lparr>handle = JStr ''a'', pageType = JStr ''action-sheet'',
              inst = \<lparr>d = 0, vis = Visible, trace = []\<rparr>, props = 0\<rparr>]\<rparr>) = None \<and>
   fst (ActionSheet_get getByHandle getByType JUndefined
         \<lparr>objects = [], config = Map.empty,
          overlays =
            [\<lparr>handle = JStr ''c'', pageType = JStr ''popup'',
              inst = \<lparr>d = 2, vis = Visible, trace = []\<rparr>, props = 2\<rparr>,
             \<lparr>handle = JStr ''b'', pageType = JStr ''action-sheet'',
              inst = \<lparr>d = 1, vis = Visible, trace = []\<rparr>, props = 1\<rparr>,
             \<lparr>handle = JStr ''a'', pageType = JStr ''action-sheet'',
              inst = \<lparr>d = 0, vis = Visible, trace = []\<rparr>, props = 0\<rparr>]\<rparr>) =
     Some \<lparr>handle = JStr ''b'', pageType = JStr ''action-sheet'',
           inst = \<lparr>d = 1, vis = Visible, trace = []\<rparr>, props = 1\<rparr> \<and>
   snd (ActionSheet_get getByHandle getByType (JStr ''a'')
         \<lparr>objects = [], config = Map.empty,
          overlays =
            [\<lparr>handle = JStr ''c'', pageType = JStr ''popup'',
              inst = \<lparr>d = 2, vis = Visible, trace = []\<rparr>, props = 2\<rparr>,
             \<lparr>handle = JStr ''b'', pageType = JStr ''action-sheet'',
              inst = \<lparr>d = 1, vis = Visible, trace = []\<rparr>, props = 1\<rparr>,
             \<lparr>handle = JStr ''a'', pageType = JStr ''action-sheet'',
              inst = \<lparr>d = 0, vis = Visible, trace = []\<rparr>, props = 0\<rparr>]\<rparr>) =
     \<lparr>objects = [], config = Map.empty,
      overlays =
        [\<lparr>handle = JStr ''c'', pageType = JStr ''popup'',
          inst = \<lparr>d = 2, vis = Visible, trace = []\<rparr>, props = 2\<rparr>,
         \<lparr>handle = JStr ''b'', pageType = JStr ''action-sheet'',
          inst = \<lparr>d = 1, vis = Visible, trace = []\<rparr>, props = 1\<rparr>,
         \<lparr>handle = JStr ''a'', pageType = JStr ''action-sheet'',
          inst = \<lparr>d = 0, vis = Visible, trace = []\<rparr>, props = 0\<rparr>]\<rparr>"
proof -
  let ?c = "\<lparr>handle = JStr ''c'', pageType = JStr ''popup'',
              inst = \<lparr>d = 2, vis = Visible, trace = []\<rparr>, props = 2\<rparr>"
  let ?b = "\<lparr>handle = JStr ''b'', pageType = JStr ''action-sheet'',
              inst = \<lparr>d = 1, vis = Visible, trace = []\<rparr>, props = 1\<rparr>"
  let ?a = "\<lparr>handle = JStr ''a'', pageType = JStr ''action-sheet'',
              inst = \<lparr>d = 0, vis = Visible, trace = []\<rparr>, props = 0\<rparr>"
  let ?w = "\<lparr>objects = [], config = Map.empty, overlays = [?c, ?b, ?a]\<rparr>"
  note claim = get_lookup [where w = ?w]
  have byhandle: "fst (ActionSheet_get getByHandle getByType (JStr ''a'') ?w) = Some ?a"
    using claim [where hnd = "JStr ''a''", THEN conjunct1] by simp
  have miss: "fst (ActionSheet_get getByHandle getByType (JStr ''z'') ?w) = None"
    using claim [where hnd = "JStr ''z''", THEN conjunct1] by simp
  have "overlays ?w = [?c] @ ?b # [?a]" by simp
  then have bytype: "fst (ActionSheet_get getByHandle getByType JUndefined ?w) = Some ?b"
    using claim [where hnd = JUndefined, THEN conjunct2, THEN conjunct1, THEN spec, THEN spec,
                 THEN spec, of "[?c]" ?b "[?a]"]
    by simp
  have same: "snd (ActionSheet_get getByHandle getByType (JStr ''a'') ?w) = ?w"
    using claim [where hnd = "JStr ''a''"] by blast
  show ?thesis
    by (intro conjI byhandle miss bytype same)
qed

text \<open>
  Claim C9. Whatever the controller's two lookups are: with a falsy handle \<open>get\<close> is
  the by-type lookup of \<open>'action-sheet'\<close>, and the by-handle lookup has no part in the
  result (any other by-handle lookup gives the same); with a truthy handle \<open>get\<close> is
  the by-handle lookup of that handle. \<open>undefined\<close>, the empty string, \<open>0\<close> and \<open>null\<close>
  are falsy.
\<close>

theorem get_falsy_handle:
  "(\<not> truthy hnd \<longrightarrow>
      ActionSheet_get gbh gbt hnd w = gbt (JStr ''action-sheet'') w \<and>
      ActionSheet_get gbh gbt hnd w = ActionSheet_get gbh' gbt hnd w) \<and>
   (truthy hnd \<longrightarrow> ActionSheet_get gbh gbt hnd w = gbh hnd w) \<and>
   \<not> truthy JUndefined \<and> \<not> truthy (JStr '''') \<and> \<not> truthy (JNum 0) \<and> \<not> truthy JNull"
  by (simp add: ActionSheet_get_def OVERLAY_TYPE_def)

text \<open>
  With lookups that only say which of them was asked, and for what: the empty string
  and \<open>0\<close> go to the by-type lookup, the handle \<open>'a'\<close> to the by-handle lookup.
\<close>

theorem get_falsy_handle_witness:
  "ActionSheet_get (\<lambda>h w. (''getByHandle'', h)) (\<lambda>t w. (''getByType'', t)) (JStr '''') () =
     (''getByType'', JStr ''action-sheet'') \<and>
   ActionSheet_get (\<lambda>h w. (''getByHandle'', h)) (\<lambda>t w. (''getByType'', t)) (JNum 0) () =
     (''getByType'', JStr ''action-sheet'') \<and>
   ActionSheet_get (\<lambda>h w. (''getByHandle'', h)) (\<lambda>t w. (''getByType'', t)) (JStr ''a'') () =
     (''getByHandle'', JStr ''a'')"
  using get_falsy_handle
          [where gbh = "\<lambda>h w. (''getByHandle'', h)" and gbt = "\<lambda>t w. (''getByType'', t)"
             and hnd = "JStr ''''" and w = "()"]
        get_falsy_handle
          [where gbh = "\<lambda>h w. (''getByHandle'', h)" and gbt = "\<lambda>t w. (''getByType'', t)"
             and hnd = "JNum 0" and w = "()"]
        get_falsy_handle
          [where gbh = "\<lambda>h w. (''getByHandle'', h)" and gbt = "\<lambda>t w. (''getByType'', t)"
             and hnd = "JStr ''a''" and w = "()"]
  by simp

section \<open>Properties of the registered animations\<close>

lemma registered_names:
  "registered ''action-sheet-slide-in'' = Some ActionSheetSlideIn"
  "registered ''action-sheet-slide-out'' = Some ActionSheetSlideOut"
  "registered ''action-sheet-md-slide-in'' = Some ActionSheetMdSlideIn"
  "registered ''action-sheet-md-slide-out'' = Some ActionSheetMdSlideOut"
  by (simp_all add: registered_def register_def)

lemmas animation_defs =
  ActionSheetSlideIn_def ActionSheetSlideOut_def ActionSheetMdSlideIn_def
  ActionSheetMdSlideOut_def add_def duration_def easing_def fromTo_def new_Animation_def

text \<open>
  Claim C7, as the code has it. Under the default style's names the backdrop's opacity
  goes from 0.01 to 0.4 entering and from 0.4 to 0 leaving; under the alternate
  style's names from 0.01 to 0.26 entering and from 0.26 to 0 leaving. Under all four
  names the wrapper's vertical translation goes from 100% to 0% entering and from 0%
  to 100% leaving. The durations are 400, 300, 450 and 450 milliseconds, and the easing
  is \<open>cubic-bezier(.36,.66,.04,1)\<close> throughout.
\<close>

theorem animation_table:
  "bounds ''action-sheet-slide-in'' ''backdrop'' ''opacity'' = Some (JNum (1 / 100), JNum (4 / 10)) \<and>
   bounds ''action-sheet-slide-out'' ''backdrop'' ''opacity'' = Some (JNum (4 / 10), JNum 0) \<and>
   bounds ''action-sheet-md-slide-in'' ''backdrop'' ''opacity'' =
     Some (JNum (1 / 100), JNum (26 / 100)) \<and>
   bounds ''action-sheet-md-slide-out'' ''backdrop'' ''opacity'' = Some (JNum (26 / 100), JNum 0) \<and>
   bounds ''action-sheet-slide-in'' ''action-sheet-wrapper'' ''translateY'' =
     Some (JStr ''100%'', JStr ''0%'') \<and>
   bounds ''action-sheet-slide-out'' ''action-sheet-wrapper'' ''translateY'' =
     Some (JStr ''0%'', JStr ''100%'') \<and>
   bounds ''action-sheet-md-slide-in'' ''action-sheet-wrapper'' ''translateY'' =
     Some (JStr ''100%'', JStr ''0%'') \<and>
   bounds ''action-sheet-md-slide-out'' ''action-sheet-wrapper'' ''translateY'' =
     Some (JStr ''0%'', JStr ''100%'') \<and>
   timing ''action-sheet-slide-in'' = Some (Some 400, Some ''cubic-bezier(.36,.66,.04,1)'') \<and>
   timing ''action-sheet-slide-out'' = Some (Some 300, Some ''cubic-bezier(.36,.66,.04,1)'') \<and>
   timing ''action-sheet-md-slide-in'' = Some (Some 450, Some ''cubic-bezier(.36,.66,.04,1)'') \<and>
   timing ''action-sheet-md-slide-out'' = Some (Some 450, Some ''cubic-bezier(.36,.66,.04,1)'')"
  by (simp add: bounds_def timing_def registered_names animation_defs)

text \<open>
  Claim C7 as stated fails: the alternate style's backdrop does not enter from opacity
  0 but from 0.01, and the default style's leaving bounds are not its entering bounds
  reversed (it leaves towards 0, not towards 0.01).
\<close>

theorem animation_table_counterexample:
  "bounds ''action-sheet-md-slide-in'' ''backdrop'' ''opacity'' \<noteq> Some (JNum 0, JNum (26 / 100)) \<and>
   bounds ''action-sheet-slide-in'' ''backdrop'' ''opacity'' = Some (JNum (1 / 100), JNum (4 / 10)) \<and>
   bounds ''action-sheet-slide-out'' ''backdrop'' ''opacity'' \<noteq> Some (JNum (4 / 10), JNum (1 / 100))"
  by (simp add: bounds_def registered_names animation_defs)

section \<open>Properties of the segment button\<close>

text \<open>
  Claim C10. For every pair of a new and a previous value of \<open>checked\<close>, the watcher
  emits \<open>ionSelect\<close> once when the previous value is false and the new one true, and
  not at all otherwise. So does an assignment to \<open>checked\<close>: one more event when it
  turns an unchecked button checked, none in any other case. A click leaves the button
  checked; it emits once on an unchecked button and nothing on a checked one.
\<close>

theorem ionSelect_on_rising_edge:
  "ionSelect (checkedChanged chk prev s) = ionSelect s + (if chk \<and> \<not> prev then 1 else 0) \<and>
   checked (checkedChanged chk prev s) = checked s \<and>
   ionSelect (set_checked v s) = ionSelect s + (if v \<and> \<not> checked s then 1 else 0) \<and>
   checked (set_checked v s) = v \<and>
   checked (onClick s) = True \<and>
   ionSelect (onClick s) = ionSelect s + (if checked s then 0 else 1)"
  by (simp add: checkedChanged_def set_checked_def onClick_def)

text \<open>
  A button clicked twice and then unchecked from outside has emitted exactly once.
\<close>

theorem ionSelect_on_rising_edge_witness:
  "onClick \<lparr>checked = False, ionSelect = 0\<rparr> = \<lparr>checked = True, ionSelect = 1\<rparr> \<and>
   onClick (onClick \<lparr>checked = False, ionSelect = 0\<rparr>) = \<lparr>checked = True, ionSelect = 1\<rparr> \<and>
   set_checked False (onClick (onClick \<lparr>checked = False, ionSelect = 0\<rparr>)) =
     \<lparr>checked = False, ionSelect = 1\<rparr>"
proof -
  have a: "onClick \<lparr>checked = False, ionSelect = 0\<rparr> = \<lparr>checked = True, ionSelect = 1\<rparr>"
    using ionSelect_on_rising_edge [where s = "\<lparr>checked = False, ionSelect = 0\<rparr>"]
    by (cases "onClick \<lparr>checked = False, ionSelect = 0\<rparr>") simp
  have b: "onClick \<lparr>checked = True, ionSelect = 1\<rparr> = \<lparr>checked = True, ionSelect = 1\<rparr>"
    using ionSelect_on_rising_edge [where s = "\<lparr>checked = True, ionSelect = 1\<rparr>"]
    by (cases "onClick \<lparr>checked = True, ionSelect = 1\<rparr>") simp
  have c: "set_checked False \<lparr>checked = True, ionSelect = 1\<rparr> = \<lparr>checked = False, ionSelect = 1\<rparr>"
    using ionSelect_on_rising_edge
            [where s = "\<lparr>checked = True, ionSelect = 1\<rparr>" and v = False]
    by (cases "set_checked False \<lparr>checked = True, ionSelect = 1\<rparr>") simp
  show ?thesis
    by (simp only: a b c)
qed

end
